theory Spec2Isabelle
  imports Main "HOL-Library.Multiset" "HOL-Library.AList"
begin

section \<open>Strings\<close>

text \<open>
  Python strings are modelled as \<open>string\<close> (lists of 8-bit characters). \<open>str.lower()\<close> is
  modelled on the ASCII letters \<open>A\<close>..\<open>Z\<close>; every other character is left as it is.
\<close>

definition lower_char :: "char \<Rightarrow> char" where
  "lower_char c =
     (case map_of (zip ''ABCDEFGHIJKLMNOPQRSTUVWXYZ'' ''abcdefghijklmnopqrstuvwxyz'') c of
        Some l \<Rightarrow> l
      | None \<Rightarrow> c)"

definition lower :: "string \<Rightarrow> string" where
  "lower s = map lower_char s"

fun startswith :: "string \<Rightarrow> string \<Rightarrow> bool" where
  "startswith s [] = True"
| "startswith [] (p # ps) = False"
| "startswith (c # cs) (p # ps) = (c = p \<and> startswith cs ps)"

text \<open>\<open>contains kw s\<close> is Python's \<open>kw in s\<close> on strings: \<open>kw\<close> occurs as a substring of \<open>s\<close>.\<close>

fun contains :: "string \<Rightarrow> string \<Rightarrow> bool" where
  "contains kw [] = (kw = [])"
| "contains kw (c # cs) = (startswith (c # cs) kw \<or> contains kw cs)"

section \<open>watchers/base.py\<close>

datatype ReleaseStage = ANNOUNCED | LAUNCHED | UPDATED | UNKNOWN

text \<open>The values an event's \<open>extra_data\<close> dictionary holds.\<close>

datatype pyval = PyNone | PyBool bool | PyInt int | PyStr string | PyList "pyval list"

text \<open>
  A dictionary with string keys is an association list in insertion order; assigning to a key
  is \<open>AList.update\<close> (an existing key keeps its place, a new key goes to the end).
  \<open>timestamp\<close> is an abstract instant.
\<close>

record WatchEvent =
  source :: string
  event_type :: string
  model_name :: string
  title :: string
  description :: string
  url :: string
  timestamp :: nat
  extra_data :: "(string \<times> pyval) list option"
  release_stage :: ReleaseStage

section \<open>watchers/github\_watcher.py: the release-stage classifier\<close>

definition ANNOUNCEMENT_KEYWORDS :: "string list" where
  "ANNOUNCEMENT_KEYWORDS =
     [''coming soon'', ''announcing'', ''preview'', ''teaser'', ''upcoming'',
      ''will be released'', ''stay tuned'', ''sneak peek'', ''roadmap'',
      ''planned'', ''expected'', ''eta'', ''wip'', ''work in progress'',
      ''alpha'', ''beta'', ''rc'', ''release candidate'', ''pre-release'']"

definition LAUNCH_KEYWORDS :: "string list" where
  "LAUNCH_KEYWORDS =
     [''released'', ''available now'', ''v1.'', ''v2.'', ''stable'',
      ''production ready'', ''ready to use'', ''download now'',
      ''install'', ''pip install'', ''weights released'']"

text \<open>
  \<open>_detect_release_stage(text, is_prerelease)\<close>. The first test is \<open>if not text\<close>, which
  returns \<open>UNKNOWN\<close> for the empty text (and for a missing one) before the prerelease flag
  is looked at.
\<close>

definition detect_release_stage :: "string \<Rightarrow> bool \<Rightarrow> ReleaseStage" where
  "detect_release_stage text is_prerelease =
     (if text = [] then UNKNOWN
      else let text_lower = lower text in
        if is_prerelease then ANNOUNCED
        else if list_ex (\<lambda>keyword. contains keyword text_lower) ANNOUNCEMENT_KEYWORDS then ANNOUNCED
        else if list_ex (\<lambda>keyword. contains keyword text_lower) LAUNCH_KEYWORDS then LAUNCHED
        else UNKNOWN)"

section \<open>watchers/leaderboard\_watcher.py\<close>

text \<open>
  \<open>dict.get(key, default)\<close> on a key that may be missing: \<open>None\<close> is the missing key.
\<close>

definition get_default :: "'a \<Rightarrow> 'a option \<Rightarrow> 'a" where
  "get_default d x = (case x of None \<Rightarrow> d | Some v \<Rightarrow> v)"

text \<open>\<open>str(n)\<close> of an integer, and \<open>sep.join(xs)\<close>.\<close>

fun str_nat :: "nat \<Rightarrow> string" where
  "str_nat n =
     (if n < 10 then [''0123456789'' ! n]
      else str_nat (n div 10) @ [''0123456789'' ! (n mod 10)])"

declare str_nat.simps [simp del]

definition str_int :: "int \<Rightarrow> string" where
  "str_int i = (if i < 0 then CHR ''-'' # str_nat (nat (- i)) else str_nat (nat i))"

fun join :: "string \<Rightarrow> string list \<Rightarrow> string" where
  "join sep [] = []"
| "join sep [x] = x"
| "join sep (x # y # ys) = x @ sep @ join sep (y # ys)"

text \<open>The right arrow U+2192 of the descriptions, as its three UTF-8 bytes.\<close>

definition arrow :: string where
  "arrow = [CHR 0xE2, CHR 0x86, CHR 0x92]"

text \<open>
  One element of the \<open>data\<close> list of the API's answer. A field is \<open>None\<close> when the key is
  missing (the code reads every field with \<open>.get\<close> and a default); \<open>entry_model_creator\<close>
  is the nested object, whose \<open>name\<close> may be missing as well. Ranks and ELO scores are
  integers.
\<close>

record model_entry =
  entry_name :: "string option"
  entry_rank :: "int option"
  entry_elo :: "int option"
  entry_id :: "string option"
  entry_model_creator :: "string option option"

text \<open>A value of \<open>current_rankings\<close>: the keys \<open>rank\<close>, \<open>elo\<close>, \<open>id\<close>, \<open>creator\<close>.\<close>

record ranking_info =
  info_rank :: int
  info_elo :: int
  info_id :: "string option"
  info_creator :: string

text \<open>What is stored per board under \<open>leaderboard_<board>\<close> in the watcher's state.\<close>

record snapshot =
  rankings :: "(string \<times> ranking_info) list"
  models :: "string list"
  top3 :: "string list"
  last_checked :: nat
  total_models :: nat

type_synonym board_state = "(string \<times> snapshot) list"

text \<open>
  The outcome of \<open>requests.get\<close> followed by \<open>response.json()\<close>: the request raises, or
  there is a status code and a body; the body is \<open>None\<close> when it is not JSON of the expected
  shape (decoding raises), else \<open>data.get('data', [])\<close>.
\<close>

datatype api_response = RequestException | Response nat "model_entry list option"

record LeaderboardWatcher =
  api_key :: string
  leaderboards_to_watch :: "string list"
  max_rank :: int

definition API_BASE :: string where
  "API_BASE = ''https://artificialanalysis.ai/api/v2/data/media''"

definition DEFAULT_MAX_RANK :: int where
  "DEFAULT_MAX_RANK = 30"

definition ENDPOINTS :: "(string \<times> string) list" where
  "ENDPOINTS =
     [(''text-to-image'', ''/text-to-image''),
      (''image-editing'', ''/image-editing''),
      (''text-to-video'', ''/text-to-video''),
      (''image-to-video'', ''/image-to-video''),
      (''text-to-speech'', ''/text-to-speech'')]"

text \<open>
  The first loop of \<open>_check_leaderboard_api\<close>: entries ranked beyond \<open>max_rank\<close> are skipped,
  the others are written into the dictionary \<open>current_rankings\<close> (a later entry of the same
  name overwrites the earlier one) and appended to the list \<open>current_models\<close>.
\<close>

fun build_current ::
  "int \<Rightarrow> model_entry list \<Rightarrow> (string \<times> ranking_info) list \<Rightarrow> string list
   \<Rightarrow> (string \<times> ranking_info) list \<times> string list" where
  "build_current mr [] current_rankings current_models = (current_rankings, current_models)"
| "build_current mr (model # rest) current_rankings current_models =
     (let name = get_default ''Unknown'' (entry_name model);
          r = get_default 0 (entry_rank model);
          e = get_default 0 (entry_elo model)
      in if r > mr then build_current mr rest current_rankings current_models
         else build_current mr rest
                (AList.update name
                   \<lparr>info_rank = r, info_elo = e, info_id = entry_id model,
                    info_creator =
                      get_default ''Unknown'' (get_default None (entry_model_creator model))\<rparr>
                   current_rankings)
                (current_models @ [name]))"

definition leaderboard_url :: "string \<Rightarrow> string" where
  "leaderboard_url board_name = ''https://artificialanalysis.ai/image/leaderboard/'' @ board_name"

text \<open>The event appended for one element of \<open>new_models\<close>.\<close>

definition new_entry_event ::
  "string \<Rightarrow> nat \<Rightarrow> (string \<times> ranking_info) list \<Rightarrow> string \<Rightarrow> WatchEvent" where
  "new_entry_event board_name now current_rankings name =
     (let model_info = map_of current_rankings name in
      \<lparr>source = ''leaderboard'',
       event_type = ''leaderboard_new_entry'',
       model_name = name,
       title = ''New model on '' @ board_name @ '': '' @ name,
       description =
         ''Rank: #'' @ (case model_info of None \<Rightarrow> ''N/A'' | Some i \<Rightarrow> str_int (info_rank i))
         @ '' | ELO: '' @ (case model_info of None \<Rightarrow> ''N/A'' | Some i \<Rightarrow> str_int (info_elo i))
         @ '' | Creator: '' @ (case model_info of None \<Rightarrow> ''Unknown'' | Some i \<Rightarrow> info_creator i),
       url = leaderboard_url board_name,
       timestamp = now,
       extra_data = Some
         [(''leaderboard'', PyStr board_name),
          (''rank'', case model_info of None \<Rightarrow> PyNone | Some i \<Rightarrow> PyInt (info_rank i)),
          (''elo'', case model_info of None \<Rightarrow> PyNone | Some i \<Rightarrow> PyInt (info_elo i)),
          (''creator'', case model_info of None \<Rightarrow> PyNone | Some i \<Rightarrow> PyStr (info_creator i)),
          (''action'', PyStr ''new_entry'')],
       release_stage = UNKNOWN\<rparr>)"

text \<open>
  The event appended for a model of \<open>current_rankings\<close> that is in \<open>previous_rankings\<close> with
  another rank. \<open>elo_change\<close> goes into the description only; \<open>extra_data\<close> carries the two
  ranks, the two ELO scores, \<open>direction\<close> and \<open>change\<close>.
\<close>

definition rank_change_event ::
  "string \<Rightarrow> nat \<Rightarrow> string \<Rightarrow> ranking_info \<Rightarrow> ranking_info \<Rightarrow> WatchEvent" where
  "rank_change_event board_name now name previous_info current_info =
     (let prev_rank = info_rank previous_info;
          curr_rank = info_rank current_info;
          prev_elo = info_elo previous_info;
          curr_elo = info_elo current_info;
          direction = (if curr_rank < prev_rank then ''up'' else ''down'');
          change = \<bar>prev_rank - curr_rank\<bar>;
          elo_change = curr_elo - prev_elo
      in
      \<lparr>source = ''leaderboard'',
       event_type = ''leaderboard_rank_change'',
       model_name = name,
       title = name @ '' moved '' @ direction @ '' on '' @ board_name,
       description =
         ''Rank: #'' @ str_int prev_rank @ '' '' @ arrow @ '' #'' @ str_int curr_rank
         @ '' ('' @ (if direction = ''up'' then ''+'' else [])
         @ str_int (if direction = ''up'' then - change else change)
         @ '') | ELO: '' @ str_int prev_elo @ '' '' @ arrow @ '' '' @ str_int curr_elo
         @ '' ('' @ (if elo_change \<ge> 0 then ''+'' else []) @ str_int elo_change @ '')'',
       url = leaderboard_url board_name,
       timestamp = now,
       extra_data = Some
         [(''leaderboard'', PyStr board_name),
          (''previous_rank'', PyInt prev_rank),
          (''current_rank'', PyInt curr_rank),
          (''previous_elo'', PyInt prev_elo),
          (''current_elo'', PyInt curr_elo),
          (''direction'', PyStr direction),
          (''change'', PyInt change)],
       release_stage = UNKNOWN\<rparr>)"

text \<open>The loop over \<open>current_rankings.items()\<close> that detects the rank changes.\<close>

fun rank_change_events ::
  "string \<Rightarrow> nat \<Rightarrow> (string \<times> ranking_info) list \<Rightarrow> (string \<times> ranking_info) list
   \<Rightarrow> WatchEvent list" where
  "rank_change_events board_name now previous_rankings [] = []"
| "rank_change_events board_name now previous_rankings ((name, current_info) # rest) =
     (case map_of previous_rankings name of
        None \<Rightarrow> rank_change_events board_name now previous_rankings rest
      | Some previous_info \<Rightarrow>
          if info_rank current_info \<noteq> info_rank previous_info
          then rank_change_event board_name now name previous_info current_info
               # rank_change_events board_name now previous_rankings rest
          else rank_change_events board_name now previous_rankings rest)"

text \<open>\<open>current_rankings.get(m, {}).get('rank', 99)\<close>, the filter and sort key of the top 3.\<close>

definition rank_or_99 :: "(string \<times> ranking_info) list \<Rightarrow> string \<Rightarrow> int" where
  "rank_or_99 current_rankings m =
     (case map_of current_rankings m of None \<Rightarrow> 99 | Some i \<Rightarrow> info_rank i)"

text \<open>
  \<open>current_top3\<close> before any truncation: the names of \<open>current_models\<close> of rank at most 3,
  sorted by rank (\<open>list.sort\<close> is stable, and so is \<open>sort_key\<close>).
\<close>

definition compute_current_top3 :: "(string \<times> ranking_info) list \<Rightarrow> string list \<Rightarrow> string list" where
  "compute_current_top3 current_rankings current_models =
     sort_key (rank_or_99 current_rankings)
       (filter (\<lambda>m. rank_or_99 current_rankings m \<le> 3) current_models)"

text \<open>
  \<open>top3_info\<close>: \<open>current_rankings[m]['rank']\<close> raises \<open>KeyError\<close> on a missing name, which
  is the result \<open>None\<close> here.
\<close>

definition top3_info :: "(string \<times> ranking_info) list \<Rightarrow> string list \<Rightarrow> string option" where
  "top3_info current_rankings ms =
     map_option (join '', '')
       (those (map (\<lambda>m. map_option (\<lambda>i. ''#'' @ str_int (info_rank i) @ '' '' @ m)
                            (map_of current_rankings m)) ms))"

definition top3_change_event ::
  "string \<Rightarrow> nat \<Rightarrow> string \<Rightarrow> string list \<Rightarrow> string list \<Rightarrow> WatchEvent" where
  "top3_change_event board_name now info previous_top3 current_top3 =
     \<lparr>source = ''leaderboard'',
      event_type = ''leaderboard_top3_change'',
      model_name = ''Top 3'',
      title = ''Top 3 changed on '' @ board_name @ '' leaderboard'',
      description = ''New Top 3: '' @ info,
      url = leaderboard_url board_name,
      timestamp = now,
      extra_data = Some
        [(''leaderboard'', PyStr board_name),
         (''previous_top3'', PyList (map PyStr previous_top3)),
         (''current_top3'', PyList (map PyStr (take 3 current_top3)))],
      release_stage = UNKNOWN\<rparr>"

text \<open>\<open>state_key\<close>: the key of a board's snapshot in the watcher's state.\<close>

definition board_key :: "string \<Rightarrow> string" where
  "board_key board_name = ''leaderboard_'' @ board_name"

text \<open>
  The body of \<open>if models_data:\<close>. The elements of the set \<open>new_models\<close> are visited in the
  order of \<open>remdups current_models\<close> (Python leaves the order of a set open; no property
  below depends on it). All calls of \<open>datetime.utcnow()\<close> during one \<open>check_updates\<close>
  read the instant \<open>now\<close>. An exception inside the body is caught by \<open>except Exception\<close>:
  the events appended so far are returned, with the state as it was.
\<close>

definition process_models_data ::
  "LeaderboardWatcher \<Rightarrow> nat \<Rightarrow> string \<Rightarrow> model_entry list \<Rightarrow> board_state
   \<Rightarrow> WatchEvent list \<times> board_state" where
  "process_models_data w now board_name models_data state =
     (let state_key = board_key board_name;
          (current_rankings, current_models) = build_current (max_rank w) models_data [] [];
          previous_data = map_of state state_key;
          previous_rankings = (case previous_data of None \<Rightarrow> [] | Some d \<Rightarrow> rankings d);
          previous_models = (case previous_data of None \<Rightarrow> [] | Some d \<Rightarrow> models d);
          new_models = filter (\<lambda>m. m \<notin> set previous_models) (remdups current_models);
          new_entry_events = map (new_entry_event board_name now current_rankings) new_models;
          change_events =
            (if previous_rankings \<noteq> []
             then rank_change_events board_name now previous_rankings current_rankings
             else []);
          current_top3 = compute_current_top3 current_rankings current_models;
          previous_top3 = (case previous_data of None \<Rightarrow> [] | Some d \<Rightarrow> top3 d);
          new_snapshot =
            \<lparr>rankings = current_rankings, models = current_models, top3 = take 3 current_top3,
             last_checked = now, total_models = length current_models\<rparr>
      in
      if previous_top3 \<noteq> [] \<and> current_top3 \<noteq> previous_top3 then
        (case top3_info current_rankings (take 3 current_top3) of
           None \<Rightarrow> (new_entry_events @ change_events, state)
         | Some info \<Rightarrow>
             (new_entry_events @ change_events
                @ [top3_change_event board_name now info previous_top3 current_top3],
              AList.update state_key new_snapshot state))
      else (new_entry_events @ change_events, AList.update state_key new_snapshot state))"

text \<open>
  \<open>_check_leaderboard_api\<close>: a request that raises, a status other than 200, a body that
  does not decode and an empty \<open>data\<close> list all return no events and the state untouched.
\<close>

definition check_leaderboard_api ::
  "LeaderboardWatcher \<Rightarrow> (string \<Rightarrow> api_response) \<Rightarrow> nat \<Rightarrow> string \<Rightarrow> string \<Rightarrow> board_state
   \<Rightarrow> WatchEvent list \<times> board_state" where
  "check_leaderboard_api w fetch now board_name endpoint state =
     (case fetch (API_BASE @ endpoint) of
        RequestException \<Rightarrow> ([], state)
      | Response status_code body \<Rightarrow>
          if status_code = 200 then
            (case body of
               None \<Rightarrow> ([], state)
             | Some models_data \<Rightarrow>
                 if models_data \<noteq> [] then process_models_data w now board_name models_data state
                 else ([], state))
          else ([], state))"

text \<open>The loop of \<open>check_updates\<close> over \<open>leaderboards_to_watch\<close> (the pacing sleep left out).\<close>

fun check_boards ::
  "LeaderboardWatcher \<Rightarrow> (string \<Rightarrow> api_response) \<Rightarrow> nat \<Rightarrow> string list \<Rightarrow> WatchEvent list
   \<Rightarrow> board_state \<Rightarrow> WatchEvent list \<times> board_state" where
  "check_boards w fetch now [] events new_state = (events, new_state)"
| "check_boards w fetch now (board_name # rest) events new_state =
     (case map_of ENDPOINTS board_name of
        None \<Rightarrow> check_boards w fetch now rest events new_state
      | Some endpoint \<Rightarrow>
          (case check_leaderboard_api w fetch now board_name endpoint new_state of
             (board_events, new_state') \<Rightarrow>
               check_boards w fetch now rest (events @ board_events) new_state'))"

text \<open>
  \<open>LeaderboardWatcher.check_updates\<close>. \<open>fetch\<close> is the upstream data at the time of the call,
  by URL. Without a prior state (or with an empty one) the call starts from the empty
  dictionary.
\<close>

definition check_updates ::
  "LeaderboardWatcher \<Rightarrow> (string \<Rightarrow> api_response) \<Rightarrow> nat \<Rightarrow> board_state option
   \<Rightarrow> WatchEvent list \<times> board_state" where
  "check_updates w fetch now last_check_state =
     (let new_state = (case last_check_state of None \<Rightarrow> [] | Some s \<Rightarrow> s)
      in if api_key w = [] then ([], new_state)
         else check_boards w fetch now (leaderboards_to_watch w) [] new_state)"

section \<open>utils/config\_loader.py\<close>

record ModelConfig =
  mc_name :: string
  mc_github :: "string option"
  mc_huggingface :: "string option"
  mc_modelscope :: "string option"
  mc_arxiv_query :: "string option"
  mc_news_keywords :: "string option"
  mc_priority :: string
  mc_always_notify :: "string list"

record PriorityModelConfig =
  pm_name :: string
  pm_notify_all_commits :: bool
  pm_notify_all_hf_changes :: bool
  pm_mention_channel :: bool

text \<open>The fields of \<open>Config\<close> that the router reads.\<close>

record Config =
  cfg_models :: "ModelConfig list"
  cfg_priority_models :: "PriorityModelConfig list"

definition is_high_priority :: "ModelConfig \<Rightarrow> bool" where
  "is_high_priority m = (lower (mc_priority m) = ''high'')"

definition get_priority_config :: "Config \<Rightarrow> string \<Rightarrow> PriorityModelConfig option" where
  "get_priority_config cfg name =
     find (\<lambda>pm. lower (pm_name pm) = lower name) (cfg_priority_models cfg)"

definition is_priority_model :: "Config \<Rightarrow> string \<Rightarrow> bool" where
  "is_priority_model cfg name =
     (if get_priority_config cfg name \<noteq> None then True
      else list_ex (\<lambda>m. lower (mc_name m) = lower name \<and> is_high_priority m) (cfg_models cfg))"

definition get_priority_model_names :: "Config \<Rightarrow> string set" where
  "get_priority_model_names cfg =
     set (map (\<lambda>pm. lower (pm_name pm)) (cfg_priority_models cfg))
     \<union> set (map (\<lambda>m. lower (mc_name m)) (filter is_high_priority (cfg_models cfg)))"

section \<open>notifiers/slack.py\<close>

text \<open>
  The list \<open>mention_channel_for\<close> is a mutable object that the notifier may share with the
  configuration it was built from, so list objects live in a store and the notifier holds a
  reference, an index into the store. \<open>list.copy()\<close> allocates, \<open>list.append\<close> writes in
  place. A reference of the program always points to an object; the properties below say
  so of the notifier's reference with the hypothesis \<open>mention_channel_for n < length h\<close>.
\<close>

type_synonym ref = nat
type_synonym list_store = "string list list"

definition list_copy :: "list_store \<Rightarrow> ref \<Rightarrow> list_store \<times> ref" where
  "list_copy h r = (h @ [h ! r], length h)"

definition list_append :: "list_store \<Rightarrow> ref \<Rightarrow> string \<Rightarrow> list_store" where
  "list_append h r x = h[r := h ! r @ [x]]"

record SlackNotifier =
  webhook_url :: string
  channel_webhooks :: "(string \<times> string) list"
  mention_channel_for :: ref

text \<open>
  What is posted to a webhook: the message of one event, with the decision whether its
  text starts with the channel mention, or the combined leaderboard message. The layout
  of the Slack blocks is left out. \<open>post\<close> below is the network: whether the POST of a
  message to a URL is answered with status 200 (any other status and a request that raises
  make \<open>_send_webhook\<close> return \<open>False\<close>). \<open>send_event\<close> returns a truth value, as its
  signature says.
\<close>

datatype slack_message = EventMessage bool WatchEvent | LeaderboardMessage "WatchEvent list"

definition get_webhook_for_event :: "SlackNotifier \<Rightarrow> WatchEvent \<Rightarrow> string" where
  "get_webhook_for_event n event =
     (if source event = ''leaderboard'' \<and> map_of (channel_webhooks n) ''leaderboard'' \<noteq> None
      then get_default [] (map_of (channel_webhooks n) ''leaderboard'')
      else case map_of (channel_webhooks n) (event_type event) of
             Some u \<Rightarrow> u
           | None \<Rightarrow>
               (case map_of (channel_webhooks n) (source event) of
                  Some u \<Rightarrow> u
                | None \<Rightarrow> webhook_url n))"

definition build_message :: "SlackNotifier \<Rightarrow> list_store \<Rightarrow> WatchEvent \<Rightarrow> slack_message" where
  "build_message n h event = EventMessage (event_type event \<in> set (h ! mention_channel_for n)) event"

definition send_webhook ::
  "(slack_message \<Rightarrow> string \<Rightarrow> bool) \<Rightarrow> SlackNotifier \<Rightarrow> slack_message \<Rightarrow> string \<Rightarrow> bool" where
  "send_webhook post n message webhook =
     (let u = (if webhook \<noteq> [] then webhook else webhook_url n) in
      if u = [] \<or> startswith u ''https://hooks.slack.com/services/YOUR'' then False
      else post message u)"

text \<open>\<open>send_event(event, webhook_url=None)\<close>; the empty string stands for no override.\<close>

definition send_event ::
  "(slack_message \<Rightarrow> string \<Rightarrow> bool) \<Rightarrow> SlackNotifier \<Rightarrow> list_store \<Rightarrow> WatchEvent \<Rightarrow> string
   \<Rightarrow> bool" where
  "send_event post n h event webhook =
     (let u = (if webhook \<noteq> [] then webhook else get_webhook_for_event n event)
      in send_webhook post n (build_message n h event) u)"

definition send_events ::
  "(slack_message \<Rightarrow> string \<Rightarrow> bool) \<Rightarrow> SlackNotifier \<Rightarrow> list_store \<Rightarrow> WatchEvent list \<Rightarrow> nat" where
  "send_events post n h events = length (filter (\<lambda>event. send_event post n h event []) events)"

definition send_to_channel ::
  "(slack_message \<Rightarrow> string \<Rightarrow> bool) \<Rightarrow> SlackNotifier \<Rightarrow> list_store \<Rightarrow> string \<Rightarrow> WatchEvent list
   \<Rightarrow> nat" where
  "send_to_channel post n h channel_name events =
     (let u = get_default (webhook_url n) (map_of (channel_webhooks n) channel_name)
      in length (filter (\<lambda>event. send_event post n h event u) events))"

definition send_leaderboard_combined ::
  "(slack_message \<Rightarrow> string \<Rightarrow> bool) \<Rightarrow> SlackNotifier \<Rightarrow> WatchEvent list \<Rightarrow> bool" where
  "send_leaderboard_combined post n events =
     (if events = [] then True
      else send_webhook post n (LeaderboardMessage events)
             (get_default (webhook_url n) (map_of (channel_webhooks n) ''leaderboard'')))"

section \<open>main.py\<close>

text \<open>
  A watcher as the orchestrator sees it: its two names and \<open>check_updates\<close>, which
  returns the events and the new state or raises (\<open>Inl\<close>, with the message). The state
  manager is a store from keys to states; \<open>None\<close> is the key that was never saved.
\<close>

record 's Watcher =
  source_name :: string
  watcher_model_name :: string
  watcher_check_updates :: "'s option \<Rightarrow> string + (WatchEvent list \<times> 's)"

definition get_state_key :: "'s Watcher \<Rightarrow> string" where
  "get_state_key w = source_name w @ '':'' @ watcher_model_name w"

text \<open>
  The loop of \<open>check_all\<close>. An exception of a watcher is caught inside the loop: nothing is
  saved and nothing is collected for it.
\<close>

fun check_all_loop ::
  "'s Watcher list \<Rightarrow> (string \<rightharpoonup> 's) \<Rightarrow> WatchEvent list \<Rightarrow> WatchEvent list \<times> (string \<rightharpoonup> 's)" where
  "check_all_loop [] state_manager all_events = (all_events, state_manager)"
| "check_all_loop (watcher # rest) state_manager all_events =
     (let state_key = get_state_key watcher;
          last_state = state_manager state_key;
          is_first_run = (case last_state of None \<Rightarrow> True | Some s \<Rightarrow> False)
      in case watcher_check_updates watcher last_state of
           Inl e \<Rightarrow> check_all_loop rest state_manager all_events
         | Inr (events, new_state) \<Rightarrow>
             check_all_loop rest (state_manager(state_key \<mapsto> new_state))
               (if is_first_run then all_events
                else if events \<noteq> [] then all_events @ events
                else all_events))"

definition check_all ::
  "'s Watcher list \<Rightarrow> (string \<rightharpoonup> 's) \<Rightarrow> WatchEvent list \<times> (string \<rightharpoonup> 's)" where
  "check_all watchers state_manager = check_all_loop watchers state_manager []"

definition is_priority_event :: "Config \<Rightarrow> WatchEvent \<Rightarrow> bool" where
  "is_priority_event cfg event = is_priority_model cfg (model_name event)"

text \<open>
  \<open>_mark_priority_events\<close> writes two keys into \<open>extra_data\<close> of the events of priority
  models, in place; the list that comes back holds the same events in the same order.
\<close>

definition mark_priority_events :: "Config \<Rightarrow> WatchEvent list \<Rightarrow> WatchEvent list" where
  "mark_priority_events cfg events =
     (let priority_names = get_priority_model_names cfg in
      map (\<lambda>event.
             if lower (model_name event) \<in> priority_names
             then event\<lparr>extra_data :=
                    Some (AList.update ''priority_model'' (PyBool True)
                           (AList.update ''is_priority'' (PyBool True)
                              (case extra_data event of None \<Rightarrow> [] | Some d \<Rightarrow> d)))\<rparr>
             else event)
          events)"

text \<open>
  The five lists that \<open>run_once\<close> builds from the marked events. \<open>e not in xs\<close> compares
  events with the equality of the dataclass, field by field; an event of \<open>normal_events\<close>
  that one of the three filters selects is itself in the filtered list, and an event equal
  to a selected one has its stage and source, so the test only depends on the stage and the
  source of the event.
\<close>

record buckets =
  priority_events :: "WatchEvent list"
  announcements :: "WatchEvent list"
  launches :: "WatchEvent list"
  leaderboard_events :: "WatchEvent list"
  other_events :: "WatchEvent list"

definition route :: "Config \<Rightarrow> WatchEvent list \<Rightarrow> buckets" where
  "route cfg events =
     (let priority = filter (\<lambda>e. is_priority_event cfg e) events;
          normal_events = filter (\<lambda>e. \<not> is_priority_event cfg e) events;
          ann = filter (\<lambda>e. release_stage e = ANNOUNCED) normal_events;
          lau = filter (\<lambda>e. release_stage e = LAUNCHED) normal_events;
          lb = filter (\<lambda>e. source e = ''leaderboard'') normal_events;
          other = filter (\<lambda>e. e \<notin> set (ann @ lau @ lb)) normal_events
      in \<lparr>priority_events = priority, announcements = ann, launches = lau,
          leaderboard_events = lb, other_events = other\<rparr>)"

text \<open>
  The loop over \<open>priority_events\<close>. With a priority configuration that asks for the channel
  mention, the mention list is copied, the event type is appended to the list object the
  notifier holds (unless it is there), the event is sent, and the notifier is pointed to
  the copy.
\<close>

fun send_priority_events ::
  "Config \<Rightarrow> (slack_message \<Rightarrow> string \<Rightarrow> bool) \<Rightarrow> WatchEvent list
   \<Rightarrow> SlackNotifier \<times> list_store \<times> nat \<Rightarrow> SlackNotifier \<times> list_store \<times> nat" where
  "send_priority_events cfg post [] (n, h, sent) = (n, h, sent)"
| "send_priority_events cfg post (event # rest) (n, h, sent) =
     (let priority_config = get_priority_config cfg (model_name event) in
      if (case priority_config of None \<Rightarrow> False | Some pc \<Rightarrow> pm_mention_channel pc) then
        (case list_copy h (mention_channel_for n) of
           (h1, original_mention_list) \<Rightarrow>
             let h2 = (if event_type event \<notin> set (h1 ! mention_channel_for n)
                       then list_append h1 (mention_channel_for n) (event_type event)
                       else h1);
                 sent' = (if send_event post n h2 event [] then sent + 1 else sent)
             in send_priority_events cfg post rest
                  (n\<lparr>mention_channel_for := original_mention_list\<rparr>, h2, sent'))
      else
        send_priority_events cfg post rest
          (n, h, if send_event post n h event [] then sent + 1 else sent))"

text \<open>
  \<open>run_once\<close>: the events of the cycle, the saved states, the notifier and the list store
  after the sends, and the number of successful sends.
\<close>

definition run_once ::
  "Config \<Rightarrow> (slack_message \<Rightarrow> string \<Rightarrow> bool) \<Rightarrow> 's Watcher list \<Rightarrow> (string \<rightharpoonup> 's)
   \<Rightarrow> SlackNotifier \<Rightarrow> list_store
   \<Rightarrow> WatchEvent list \<times> (string \<rightharpoonup> 's) \<times> SlackNotifier \<times> list_store \<times> nat" where
  "run_once cfg post watchers state_manager n h =
     (case check_all watchers state_manager of
        (found, state_manager') \<Rightarrow>
          if found \<noteq> [] then
            (let events = mark_priority_events cfg found;
                 b = route cfg events
             in case send_priority_events cfg post (priority_events b) (n, h, 0) of
                  (n', h', sent1) \<Rightarrow>
                    let sent2 = (if leaderboard_events b \<noteq> []
                                    \<and> send_leaderboard_combined post n' (leaderboard_events b)
                                 then sent1 + 1 else sent1);
                        sent3 = (if announcements b \<noteq> []
                                 then sent2 + send_to_channel post n' h' ''announcements'' (announcements b)
                                 else sent2);
                        sent4 = (if launches b \<noteq> []
                                 then sent3 + send_to_channel post n' h' ''launches'' (launches b)
                                 else sent3);
                        sent5 = (if other_events b \<noteq> []
                                 then sent4 + send_events post n' h' (other_events b)
                                 else sent4)
                    in (events, state_manager', n', h', sent5))
          else (found, state_manager', n, h, 0))"

section \<open>Notions used to state the properties\<close>

text \<open>The fields of an entry as the first loop reads them, with the defaults of \<open>.get\<close>.\<close>

definition name_of :: "model_entry \<Rightarrow> string" where
  "name_of model = get_default ''Unknown'' (entry_name model)"

definition rank_of :: "model_entry \<Rightarrow> int" where
  "rank_of model = get_default 0 (entry_rank model)"

definition elo_of :: "model_entry \<Rightarrow> int" where
  "elo_of model = get_default 0 (entry_elo model)"

definition info_of :: "model_entry \<Rightarrow> ranking_info" where
  "info_of model =
     \<lparr>info_rank = rank_of model, info_elo = elo_of model, info_id = entry_id model,
      info_creator = get_default ''Unknown'' (get_default None (entry_model_creator model))\<rparr>"

text \<open>The entries that pass the \<open>max_rank\<close> test, in the order of the answer.\<close>

definition tracked :: "int \<Rightarrow> model_entry list \<Rightarrow> model_entry list" where
  "tracked mr models_data = filter (\<lambda>model. \<not> rank_of model > mr) models_data"


text \<open>The dictionary and the list that the first loop builds from an answer.\<close>

definition current_rankings :: "int \<Rightarrow> model_entry list \<Rightarrow> (string \<times> ranking_info) list" where
  "current_rankings mr models_data = fst (build_current mr models_data [] [])"

definition current_models :: "int \<Rightarrow> model_entry list \<Rightarrow> string list" where
  "current_models mr models_data = snd (build_current mr models_data [] [])"



text \<open>What one watcher adds to the collected events, given the state stored for it.\<close>

definition contribution :: "'s Watcher \<Rightarrow> 's option \<Rightarrow> WatchEvent list" where
  "contribution w last_state =
     (case watcher_check_updates w last_state of
        Inl e \<Rightarrow> []
      | Inr (events, new_state) \<Rightarrow> (case last_state of None \<Rightarrow> [] | Some s \<Rightarrow> events))"

section \<open>Example inputs\<close>

text \<open>
  Shorthands for the concrete inputs at which the properties below are evaluated: a
  watcher of one board with the default \<open>max_rank\<close>, an entry of the API's answer with a
  name, a rank and an ELO score, the ranking it becomes, an event, and a configuration
  with the priority model \<open>Z-Image\<close>.
\<close>

abbreviation ex_watcher :: LeaderboardWatcher where
  "ex_watcher \<equiv> \<lparr>api_key = ''key'', leaderboards_to_watch = [''text-to-image''], max_rank = 30\<rparr>"

abbreviation ex_entry :: "string \<Rightarrow> int \<Rightarrow> int \<Rightarrow> model_entry" where
  "ex_entry n r e \<equiv>
     \<lparr>entry_name = Some n, entry_rank = Some r, entry_elo = Some e, entry_id = None,
      entry_model_creator = None\<rparr>"

abbreviation ex_info :: "int \<Rightarrow> int \<Rightarrow> ranking_info" where
  "ex_info r e \<equiv> \<lparr>info_rank = r, info_elo = e, info_id = None, info_creator = ''Unknown''\<rparr>"

abbreviation ex_event :: "string \<Rightarrow> string \<Rightarrow> string \<Rightarrow> ReleaseStage \<Rightarrow> WatchEvent" where
  "ex_event src ty name stage \<equiv>
     \<lparr>source = src, event_type = ty, model_name = name, title = ''title'', description = ''text'',
      url = ''https://example.org'', timestamp = 0, extra_data = None, release_stage = stage\<rparr>"



section \<open>Properties of the classifier\<close>

lemma detect_release_stage_examples:
  "detect_release_stage ''Beta build'' False = ANNOUNCED"
  "detect_release_stage ''Weights Released'' False = LAUNCHED"
  "detect_release_stage ''fix typo'' False = UNKNOWN"
  by (simp_all add: detect_release_stage_def lower_def lower_char_def
        ANNOUNCEMENT_KEYWORDS_def LAUNCH_KEYWORDS_def)

text \<open>
  C2 (as stated): with \<open>is_prerelease = True\<close> the classifier returns \<open>ANNOUNCED\<close> for every
  text, the empty text included. This fails: on the empty text the guard \<open>if not text\<close>
  answers \<open>UNKNOWN\<close> first.
\<close>

theorem C2_empty_text_counterexample:
  "detect_release_stage '''' True \<noteq> ANNOUNCED"
  by (simp add: detect_release_stage_def)

text \<open>
  C2 (amended): with \<open>is_prerelease = True\<close> the classifier returns \<open>ANNOUNCED\<close> for every
  non-empty text, whatever the text contains, and \<open>UNKNOWN\<close> for the empty text.
\<close>

theorem C2_prerelease_short_circuit:
  "detect_release_stage text True = (if text = [] then UNKNOWN else ANNOUNCED)"
  by (simp add: detect_release_stage_def Let_def)

theorem C2_prerelease_short_circuit_witness:
  "detect_release_stage ''v1.0 stable, released'' True = ANNOUNCED
   \<and> detect_release_stage '''' True = UNKNOWN"
  using C2_prerelease_short_circuit [of "''v1.0 stable, released''"]
        C2_prerelease_short_circuit [of "''''"]
  by simp

section \<open>The first loop of the leaderboard differ\<close>

lemma build_current_eq:
  "build_current mr data cr cm =
     (foldl (\<lambda>acc m. AList.update (name_of m) (info_of m) acc) cr (tracked mr data),
      cm @ map name_of (tracked mr data))"
  by (induction data arbitrary: cr cm)
     (simp_all add: tracked_def name_of_def rank_of_def elo_of_def info_of_def Let_def)


lemma keys_foldl_update:
  "fst ` set (foldl (\<lambda>acc m. AList.update (f m) (g m) acc) cr xs) = fst ` set cr \<union> f ` set xs"
  by (induction xs arbitrary: cr) (auto simp: dom_update)

lemma distinct_foldl_update:
  "distinct (map fst cr) \<Longrightarrow> distinct (map fst (foldl (\<lambda>acc m. AList.update (f m) (g m) acc) cr xs))"
  by (induction xs arbitrary: cr) (simp_all add: distinct_update)



lemma keys_current_rankings:
  "fst ` set (current_rankings mr data) = set (current_models mr data)"
  by (simp add: current_rankings_def current_models_def build_current_eq keys_foldl_update)

lemma distinct_current_rankings: "distinct (map fst (current_rankings mr data))"
  by (simp add: current_rankings_def build_current_eq distinct_foldl_update)

lemma build_current_pair:
  "build_current mr data [] [] = (current_rankings mr data, current_models mr data)"
  by (simp add: current_rankings_def current_models_def)

lemma those_map_Some:
  "(\<And>x. x \<in> set xs \<Longrightarrow> f x \<noteq> None) \<Longrightarrow> \<exists>ys. those (map f xs) = Some ys"
  by (induction xs) (auto split: option.splits)

lemma top3_info_Some:
  assumes "set ms \<subseteq> fst ` set cr"
  shows "\<exists>info. top3_info cr ms = Some info"
proof -
  have "\<And>m. m \<in> set ms \<Longrightarrow> map_option (\<lambda>i. ''#'' @ str_int (info_rank i) @ '' '' @ m) (map_of cr m) \<noteq> None"
    using assms by (auto simp: map_of_eq_None_iff)
  then obtain ys where "those (map (\<lambda>m. map_option (\<lambda>i. ''#'' @ str_int (info_rank i) @ '' '' @ m) (map_of cr m)) ms) = Some ys"
    using those_map_Some [of ms "\<lambda>m. map_option (\<lambda>i. ''#'' @ str_int (info_rank i) @ '' '' @ m) (map_of cr m)"] by blast
  then show ?thesis by (simp add: top3_info_def)
qed

lemma set_compute_current_top3:
  "set (compute_current_top3 cr cm) \<subseteq> set cm"
  by (auto simp: compute_current_top3_def)

lemma top3_info_current:
  "\<exists>info. top3_info (current_rankings mr data)
      (take 3 (compute_current_top3 (current_rankings mr data) (current_models mr data))) = Some info"
proof (rule top3_info_Some)
  show "set (take 3 (compute_current_top3 (current_rankings mr data) (current_models mr data)))
      \<subseteq> fst ` set (current_rankings mr data)"
    using set_take_subset [of 3 "compute_current_top3 (current_rankings mr data) (current_models mr data)"]
      set_compute_current_top3 [of "current_rankings mr data" "current_models mr data"]
    by (auto simp: keys_current_rankings)
qed

lemma process_models_data_shape:
  assumes "cr = current_rankings (max_rank w) data"
      and "cm = current_models (max_rank w) data"
      and "prev = map_of state (board_key board_name)"
      and "cur_top3 = compute_current_top3 cr cm"
      and "prev_top3 = (case prev of None \<Rightarrow> [] | Some d \<Rightarrow> top3 d)"
  shows "\<exists>tail. process_models_data w now board_name data state =
      (map (new_entry_event board_name now cr)
           (filter (\<lambda>m. m \<notin> set (case prev of None \<Rightarrow> [] | Some d \<Rightarrow> models d)) (remdups cm))
        @ (if (case prev of None \<Rightarrow> [] | Some d \<Rightarrow> rankings d) \<noteq> []
           then rank_change_events board_name now (case prev of None \<Rightarrow> [] | Some d \<Rightarrow> rankings d) cr
           else [])
        @ tail,
       AList.update (board_key board_name)
         \<lparr>rankings = cr, models = cm, top3 = take 3 cur_top3, last_checked = now,
          total_models = length cm\<rparr> state)
    \<and> (if prev_top3 \<noteq> [] \<and> cur_top3 \<noteq> prev_top3
        then \<exists>info. tail = [top3_change_event board_name now info prev_top3 cur_top3]
        else tail = [])"
proof -
  obtain info where "top3_info cr (take 3 cur_top3) = Some info"
    using top3_info_current [of "max_rank w" data] assms by auto
  then show ?thesis
    using assms
    by (auto simp: process_models_data_def build_current_pair Let_def)
qed

section \<open>The events of one board\<close>


lemma rank_change_events_type:
  "e \<in> set (rank_change_events board_name now pr cr) \<Longrightarrow>
     event_type e = ''leaderboard_rank_change'' \<and> model_name e \<in> fst ` set cr"
  by (induction cr) (auto simp: rank_change_event_def Let_def split: option.splits if_splits)

lemma new_entry_event_type:
  "event_type (new_entry_event board_name now cr name) = ''leaderboard_new_entry''"
  "model_name (new_entry_event board_name now cr name) = name"
  by (simp_all add: new_entry_event_def Let_def)

lemma top3_change_event_type:
  "event_type (top3_change_event board_name now info p c) = ''leaderboard_top3_change''"
  "model_name (top3_change_event board_name now info p c) = ''Top 3''"
  by (simp_all add: top3_change_event_def)

lemma check_leaderboard_api_ok:
  "fetch (API_BASE @ endpoint) = Response 200 (Some data) \<Longrightarrow> data \<noteq> [] \<Longrightarrow>
   check_leaderboard_api w fetch now board_name endpoint state =
     process_models_data w now board_name data state"
  by (simp add: check_leaderboard_api_def)

lemma current_rankings_Nil [simp]: "current_rankings mr [] = []"
  by (simp add: current_rankings_def)








lemma process_models_data_state:
  "snd (process_models_data w now board_name data state) =
     AList.update (board_key board_name)
       \<lparr>rankings = current_rankings (max_rank w) data,
        models = current_models (max_rank w) data,
        top3 = take 3 (compute_current_top3 (current_rankings (max_rank w) data)
                         (current_models (max_rank w) data)),
        last_checked = now,
        total_models = length (current_models (max_rank w) data)\<rparr> state"
  using process_models_data_shape [where w = w and data = data and now = now
      and board_name = board_name and state = state, OF refl refl refl refl refl]
  by auto



lemma str_int_examples:
  "str_int 1 = ''1''" "str_int 2 = ''2''" "str_int 3 = ''3''" "str_int 5 = ''5''"
  "str_int 50 = ''50''" "str_int 1000 = ''1000''" "str_int 1050 = ''1050''"
  "str_int 1200 = ''1200''"
  by code_simp+

lemmas leaderboard_eval =
  check_updates_def check_leaderboard_api_def process_models_data_def board_key_def
  API_BASE_def ENDPOINTS_def Let_def get_default_def compute_current_top3_def rank_or_99_def
  top3_info_def new_entry_event_def rank_change_event_def top3_change_event_def
  leaderboard_url_def str_int_examples

section \<open>Properties of the leaderboard differ\<close>






text \<open>
  When the top-3 event is emitted: the previous \<open>top3\<close> is not empty and differs from the
  list of the current models of rank at most 3, taken before its truncation to three.
\<close>

lemma top3_change_emitted_iff:
  assumes fetch: "fetch (API_BASE @ endpoint) = Response 200 (Some models_data)"
      and nonempty: "models_data \<noteq> []"
  shows "filter (\<lambda>e. event_type e = ''leaderboard_top3_change'')
           (fst (check_leaderboard_api w fetch now board_name endpoint state)) \<noteq> []
     \<longleftrightarrow> (case map_of state (board_key board_name) of None \<Rightarrow> [] | Some d \<Rightarrow> top3 d) \<noteq> []
         \<and> compute_current_top3 (current_rankings (max_rank w) models_data)
               (current_models (max_rank w) models_data)
             \<noteq> (case map_of state (board_key board_name) of None \<Rightarrow> [] | Some d \<Rightarrow> top3 d)"
proof -
  let ?cr = "current_rankings (max_rank w) models_data"
  let ?cm = "current_models (max_rank w) models_data"
  let ?prev = "map_of state (board_key board_name)"
  let ?P = "\<lambda>e. event_type e = ''leaderboard_top3_change''"
  let ?evs1 = "map (new_entry_event board_name now ?cr)
           (filter (\<lambda>m. m \<notin> set (case ?prev of None \<Rightarrow> [] | Some d \<Rightarrow> models d)) (remdups ?cm))"
  let ?evs2 = "if (case ?prev of None \<Rightarrow> [] | Some d \<Rightarrow> rankings d) \<noteq> []
           then rank_change_events board_name now (case ?prev of None \<Rightarrow> [] | Some d \<Rightarrow> rankings d) ?cr
           else []"
  obtain tail where run: "fst (process_models_data w now board_name models_data state) = ?evs1 @ ?evs2 @ tail"
    and tail: "if (case ?prev of None \<Rightarrow> [] | Some d \<Rightarrow> top3 d) \<noteq> []
                  \<and> compute_current_top3 ?cr ?cm \<noteq> (case ?prev of None \<Rightarrow> [] | Some d \<Rightarrow> top3 d)
               then \<exists>info. tail = [top3_change_event board_name now info
                      (case ?prev of None \<Rightarrow> [] | Some d \<Rightarrow> top3 d) (compute_current_top3 ?cr ?cm)]
               else tail = []"
    using process_models_data_shape [where w = w and data = models_data and now = now
      and board_name = board_name and state = state, OF refl refl refl refl refl]
    by (metis fst_conv)
  have f1: "filter ?P ?evs1 = []"
    by (auto simp: filter_empty_conv new_entry_event_type)
  have f2: "filter ?P ?evs2 = []"
    by (auto simp: filter_empty_conv dest: rank_change_events_type)
  have "filter ?P (fst (check_leaderboard_api w fetch now board_name endpoint state)) = filter ?P tail"
    using check_leaderboard_api_ok [where fetch = fetch and endpoint = endpoint, OF fetch nonempty]
      run f1 f2 by simp
  then show ?thesis using tail
    by (auto simp: top3_change_event_type split: if_splits)
qed

text \<open>
  C6 (the code departs from it): the previous top 3 is \<open>A, B, C\<close>, and the answer ranks
  \<open>A, B, C, D\<close> as 1, 2, 3, 3. The top 3 stored for the board is \<open>A, B, C\<close> again, yet a
  \<open>leaderboard_top3_change\<close> event is emitted, and the two sequences it carries are equal.
  The comparison is made with the list of all models of rank at most 3, before the
  truncation to three that the stored list and the event get.
\<close>

theorem C6_unchanged_top3_reported:
  "map (\<lambda>e. (event_type e, extra_data e))
     (fst (check_leaderboard_api ex_watcher
        (\<lambda>u. Response 200 (Some
           [ex_entry ''A'' 1 1300, ex_entry ''B'' 2 1200, ex_entry ''C'' 3 1100,
            ex_entry ''D'' 3 1100]))
        2 ''text-to-image'' ''/text-to-image''
        [(board_key ''text-to-image'',
          \<lparr>rankings = [(''A'', ex_info 1 1300), (''B'', ex_info 2 1200),
                       (''C'', ex_info 3 1100), (''D'', ex_info 3 1100)],
           models = [''A'', ''B'', ''C'', ''D''], top3 = [''A'', ''B'', ''C''],
           last_checked = 1, total_models = 4\<rparr>)]))
     = [(''leaderboard_top3_change'',
         Some [(''leaderboard'', PyStr ''text-to-image''),
               (''previous_top3'', PyList [PyStr ''A'', PyStr ''B'', PyStr ''C'']),
               (''current_top3'', PyList [PyStr ''A'', PyStr ''B'', PyStr ''C''])])]
   \<and> map_option top3
       (map_of (snd (check_leaderboard_api ex_watcher
          (\<lambda>u. Response 200 (Some
             [ex_entry ''A'' 1 1300, ex_entry ''B'' 2 1200, ex_entry ''C'' 3 1100,
              ex_entry ''D'' 3 1100]))
          2 ''text-to-image'' ''/text-to-image''
          [(board_key ''text-to-image'',
            \<lparr>rankings = [(''A'', ex_info 1 1300), (''B'', ex_info 2 1200),
                         (''C'', ex_info 3 1100), (''D'', ex_info 3 1100)],
             models = [''A'', ''B'', ''C'', ''D''], top3 = [''A'', ''B'', ''C''],
             last_checked = 1, total_models = 4\<rparr>)]))
         (board_key ''text-to-image''))
     = Some [''A'', ''B'', ''C'']"
  by (simp add: leaderboard_eval)

lemma rank_change_events_same:
  "distinct (map fst cr) \<Longrightarrow> set cr' \<subseteq> set cr \<Longrightarrow> rank_change_events board_name now cr cr' = []"
proof (induction cr')
  case Nil
  then show ?case by simp
next
  case (Cons p cr')
  obtain k v where p: "p = (k, v)" by (cases p)
  then have "map_of cr k = Some v" using Cons.prems by simp
  then show ?case using Cons p by simp
qed

text \<open>
  Where at most three tracked entries have a rank of at most 3, the truncation changes
  nothing, and a second check of the board on unchanged data finds no event.
\<close>

lemma second_check_quiet:
  assumes fetch: "fetch (API_BASE @ endpoint) = Response 200 (Some models_data)"
      and nonempty: "models_data \<noteq> []"
      and short: "length (compute_current_top3 (current_rankings (max_rank w) models_data)
               (current_models (max_rank w) models_data)) \<le> 3"
  shows "fst (check_leaderboard_api w fetch now' board_name endpoint
           (snd (check_leaderboard_api w fetch now board_name endpoint state))) = []"
proof -
  let ?cr = "current_rankings (max_rank w) models_data"
  let ?cm = "current_models (max_rank w) models_data"
  let ?ct = "compute_current_top3 ?cr ?cm"
  let ?snap = "\<lparr>rankings = ?cr, models = ?cm, top3 = take 3 ?ct, last_checked = now,
      total_models = length ?cm\<rparr>"
  let ?state' = "AList.update (board_key board_name) ?snap state"
  have first: "snd (check_leaderboard_api w fetch now board_name endpoint state) = ?state'"
    using check_leaderboard_api_ok [where fetch = fetch and endpoint = endpoint, OF fetch nonempty]
    by (simp add: process_models_data_state)
  have no_new: "filter (\<lambda>m. m \<notin> set ?cm) (remdups ?cm) = []"
    by (simp add: filter_empty_conv)
  have no_change: "rank_change_events board_name now' ?cr ?cr = []"
    by (rule rank_change_events_same [OF distinct_current_rankings]) simp
  have same_top3: "take 3 ?ct = ?ct" using short by simp
  have "fst (process_models_data w now' board_name models_data ?state') = []"
    by (simp add: process_models_data_def build_current_pair Let_def update_conv' no_new no_change same_top3)
  then show ?thesis
    using check_leaderboard_api_ok [where fetch = fetch and endpoint = endpoint, OF fetch nonempty]
      first by simp
qed

text \<open>
  C9 (the code departs from it): the answer ranks \<open>A, B, C, D\<close> as 1, 2, 3, 3 and does not
  change. The second call, on the state that the first call returned, returns an event: a
  \<open>leaderboard_top3_change\<close> from \<open>A, B, C\<close> to \<open>A, B, C\<close>.
\<close>

theorem C9_second_call_not_empty:
  "map (\<lambda>e. (event_type e, extra_data e))
     (fst (check_updates ex_watcher
        (\<lambda>u. Response 200 (Some
           [ex_entry ''A'' 1 1300, ex_entry ''B'' 2 1200, ex_entry ''C'' 3 1100,
            ex_entry ''D'' 3 1100]))
        2
        (Some (snd (check_updates ex_watcher
           (\<lambda>u. Response 200 (Some
              [ex_entry ''A'' 1 1300, ex_entry ''B'' 2 1200, ex_entry ''C'' 3 1100,
               ex_entry ''D'' 3 1100]))
           1 None)))))
     = [(''leaderboard_top3_change'',
         Some [(''leaderboard'', PyStr ''text-to-image''),
               (''previous_top3'', PyList [PyStr ''A'', PyStr ''B'', PyStr ''C'']),
               (''current_top3'', PyList [PyStr ''A'', PyStr ''B'', PyStr ''C''])])]"
  by (simp add: leaderboard_eval)




text \<open>
  In the run just shown the model that left was in the previous top 3: the differ does emit
  an event, the top-3 change, and it lists the model in \<open>previous_top3\<close>.
\<close>

lemma dropped_model_in_previous_top3:
  "map (\<lambda>e. (event_type e, model_name e, extra_data e))
     (fst (check_leaderboard_api ex_watcher
        (\<lambda>u. Response 200 (Some [ex_entry ''A'' 1 1300, ex_entry ''M'' 31 900]))
        2 ''text-to-image'' ''/text-to-image''
        [(board_key ''text-to-image'',
          \<lparr>rankings = [(''A'', ex_info 2 1300), (''M'', ex_info 1 1200)],
           models = [''A'', ''M''], top3 = [''M'', ''A''], last_checked = 1,
           total_models = 2\<rparr>)]))
   = [(''leaderboard_rank_change'', ''A'',
       Some [(''leaderboard'', PyStr ''text-to-image''),
             (''previous_rank'', PyInt 2), (''current_rank'', PyInt 1),
             (''previous_elo'', PyInt 1300), (''current_elo'', PyInt 1300),
             (''direction'', PyStr ''up''), (''change'', PyInt 1)]),
      (''leaderboard_top3_change'', ''Top 3'',
       Some [(''leaderboard'', PyStr ''text-to-image''),
             (''previous_top3'', PyList [PyStr ''M'', PyStr ''A'']),
             (''current_top3'', PyList [PyStr ''A''])])]"
  by (simp add: leaderboard_eval)

section \<open>Properties of the router\<close>

lemma get_priority_config_None_iff:
  "get_priority_config cfg name = None \<longleftrightarrow>
     lower name \<notin> set (map (\<lambda>pm. lower (pm_name pm)) (cfg_priority_models cfg))"
  by (force simp: get_priority_config_def find_None_iff)

lemma is_priority_model_iff:
  "is_priority_model cfg name \<longleftrightarrow> lower name \<in> get_priority_model_names cfg"
  by (force simp: is_priority_model_def get_priority_model_names_def get_priority_config_None_iff
        list_ex_iff)

text \<open>
  Marking the priority events changes \<open>extra_data\<close> only, so priority, stage and source of
  the routed events are those of the events that the watchers returned.
\<close>

lemma mark_priority_events_fields:
  "map source (mark_priority_events cfg events) = map source events"
  "map event_type (mark_priority_events cfg events) = map event_type events"
  "map model_name (mark_priority_events cfg events) = map model_name events"
  "map release_stage (mark_priority_events cfg events) = map release_stage events"
  by (simp_all add: mark_priority_events_def Let_def comp_def)







section \<open>The mention list of the notifier\<close>

lemma send_priority_events_restores:
  "mention_channel_for n < length h \<Longrightarrow>
   send_priority_events cfg post events (n, h, sent) = (n', h', sent') \<Longrightarrow>
   mention_channel_for n' < length h' \<and> h' ! mention_channel_for n' = h ! mention_channel_for n
   \<and> webhook_url n' = webhook_url n \<and> channel_webhooks n' = channel_webhooks n"
proof (induction events arbitrary: n h sent)
  case Nil
  then show ?case by simp
next
  case (Cons event rest)
  show ?case
  proof (cases "case get_priority_config cfg (model_name event) of None \<Rightarrow> False
                | Some pc \<Rightarrow> pm_mention_channel pc")
    case True
    let ?h1 = "h @ [h ! mention_channel_for n]"
    let ?h2 = "if event_type event \<notin> set (?h1 ! mention_channel_for n)
               then list_append ?h1 (mention_channel_for n) (event_type event) else ?h1"
    let ?n1 = "n\<lparr>mention_channel_for := length h\<rparr>"
    have step: "send_priority_events cfg post rest
        (?n1, ?h2, if send_event post n ?h2 event [] then sent + 1 else sent) = (n', h', sent')"
      using Cons.prems(2) True by (simp add: list_copy_def Let_def)
    have len: "length ?h2 = Suc (length h)" by (simp add: list_append_def)
    have copy: "?h2 ! length h = h ! mention_channel_for n"
      using Cons.prems(1) by (simp add: list_append_def nth_append)
    have "mention_channel_for ?n1 < length ?h2" using len by simp
    from Cons.IH [OF this step] copy show ?thesis by simp
  next
    case False
    then have step: "send_priority_events cfg post rest
        (n, h, if send_event post n h event [] then sent + 1 else sent) = (n', h', sent')"
      using Cons.prems(2) by (simp add: Let_def)
    from Cons.IH [OF Cons.prems(1) step] show ?thesis .
  qed
qed

text \<open>
  While the event is sent, the list the notifier holds does contain its type, so the
  message mentions the channel; and the list object the notifier held before (the one the
  configuration may share) keeps the appended type afterwards.
\<close>

lemma override_mentions_channel:
  assumes "mention_channel_for n < length h"
  shows "build_message n
     (if event_type event \<notin> set ((fst (list_copy h (mention_channel_for n))) ! mention_channel_for n)
      then list_append (fst (list_copy h (mention_channel_for n))) (mention_channel_for n) (event_type event)
      else fst (list_copy h (mention_channel_for n))) event = EventMessage True event"
  using assms by (simp add: build_message_def list_copy_def list_append_def nth_append)

lemma shared_list_object_keeps_type:
  assumes "mention_channel_for n < length h"
      and "get_priority_config cfg (model_name event) = Some pc" and "pm_mention_channel pc"
      and "event_type event \<notin> set (h ! mention_channel_for n)"
      and "send_priority_events cfg post [event] (n, h, sent) = (n', h', sent')"
  shows "h' ! mention_channel_for n = h ! mention_channel_for n @ [event_type event]
       \<and> mention_channel_for n' \<noteq> mention_channel_for n"
  using assms by (auto simp: list_copy_def list_append_def nth_append Let_def)

text \<open>The same for a whole \<open>run_once\<close>, whose only writes to the list are in that loop.\<close>

lemma run_once_mention_list_restored:
  assumes "mention_channel_for n < length h"
      and "run_once cfg post watchers state_manager n h = (events, state_manager', n', h', sent)"
  shows "h' ! mention_channel_for n' = h ! mention_channel_for n"
proof (cases "fst (check_all watchers state_manager) = []")
  case True
  then show ?thesis using assms(2) by (simp add: run_once_def split: prod.splits)
next
  case False
  obtain n1 h1 s1 where sp: "send_priority_events cfg post
      (priority_events (route cfg (mark_priority_events cfg (fst (check_all watchers state_manager)))))
      (n, h, 0) = (n1, h1, s1)"
    by (metis prod_cases3)
  then have "n' = n1" and "h' = h1"
    using assms(2) False by (simp_all add: run_once_def Let_def split: prod.splits)
  then show ?thesis using send_priority_events_restores [OF assms(1) sp] by simp
qed



section \<open>Properties of the orchestrator\<close>

lemma check_all_loop_other_keys:
  "k \<notin> set (map get_state_key ws) \<Longrightarrow> snd (check_all_loop ws sm acc) k = sm k"
  by (induction ws arbitrary: sm acc) (auto simp: Let_def split: sum.splits prod.splits)

lemma check_all_loop_events:
  "distinct (map get_state_key ws) \<Longrightarrow>
   fst (check_all_loop ws sm acc) = acc @ concat (map (\<lambda>w. contribution w (sm (get_state_key w))) ws)"
proof (induction ws arbitrary: sm acc)
  case Nil
  then show ?case by simp
next
  case (Cons w ws)
  have fresh: "get_state_key w \<notin> get_state_key ` set ws" using Cons.prems by simp
  have later: "map (\<lambda>v. contribution v ((sm(get_state_key w \<mapsto> s)) (get_state_key v))) ws
      = map (\<lambda>v. contribution v (sm (get_state_key v))) ws" for s
  proof (rule map_cong [OF refl])
    fix v assume "v \<in> set ws"
    then have "get_state_key v \<in> get_state_key ` set ws" by (rule imageI)
    then have "get_state_key v \<noteq> get_state_key w" using fresh by metis
    then show "contribution v ((sm(get_state_key w \<mapsto> s)) (get_state_key v))
        = contribution v (sm (get_state_key v))" by simp
  qed
  have dist: "distinct (map get_state_key ws)" using Cons.prems by simp
  show ?case
  proof (cases "watcher_check_updates w (sm (get_state_key w))")
    case (Inl e)
    then have "fst (check_all_loop (w # ws) sm acc) = fst (check_all_loop ws sm acc)"
      and "contribution w (sm (get_state_key w)) = []"
      by (simp_all add: contribution_def Let_def)
    then show ?thesis using Cons.IH [OF dist, of sm acc] by simp
  next
    case (Inr r)
    obtain events new_state where r: "r = (events, new_state)" by (cases r)
    have "fst (check_all_loop (w # ws) sm acc) =
        fst (check_all_loop ws (sm(get_state_key w \<mapsto> new_state))
               (acc @ contribution w (sm (get_state_key w))))"
      using Inr r by (cases "sm (get_state_key w)") (simp_all add: contribution_def Let_def)
    also have "\<dots> = (acc @ contribution w (sm (get_state_key w)))
        @ concat (map (\<lambda>v. contribution v ((sm(get_state_key w \<mapsto> new_state)) (get_state_key v))) ws)"
      by (rule Cons.IH [OF dist])
    also have "\<dots> = acc @ concat (map (\<lambda>v. contribution v (sm (get_state_key v))) (w # ws))"
      unfolding later by simp
    finally show ?thesis .
  qed
qed

lemma check_all_loop_saved:
  "distinct (map get_state_key ws) \<Longrightarrow> w \<in> set ws \<Longrightarrow>
   watcher_check_updates w (sm (get_state_key w)) = Inr (events, new_state) \<Longrightarrow>
   snd (check_all_loop ws sm acc) (get_state_key w) = Some new_state"
proof (induction ws arbitrary: sm acc)
  case Nil
  then show ?case by simp
next
  case (Cons v ws)
  show ?case
  proof (cases "v = w")
    case True
    then show ?thesis using Cons.prems
      by (simp add: Let_def check_all_loop_other_keys)
  next
    case False
    then have w_in: "w \<in> set ws" and keys: "get_state_key v \<noteq> get_state_key w"
      using Cons.prems by auto
    have dist: "distinct (map get_state_key ws)" using Cons.prems by simp
    show ?thesis
    proof (cases "watcher_check_updates v (sm (get_state_key v))")
      case (Inl e)
      then show ?thesis
        using Cons.IH [where sm = sm and acc = acc, OF dist w_in Cons.prems(3)] by (simp add: Let_def)
    next
      case (Inr r)
      obtain evs ns where r: "r = (evs, ns)" by (cases r)
      have "snd (check_all_loop ws (sm(get_state_key v \<mapsto> ns)) a) (get_state_key w) = Some new_state" for a
        by (rule Cons.IH [OF dist w_in]) (use keys Cons.prems(3) in simp)
      then show ?thesis using Inr r by (simp add: Let_def)
    qed
  qed
qed

text \<open>
  C8: in one cycle over watchers with pairwise different state keys, the collected events
  are, watcher by watcher, nothing when \<open>check_updates\<close> raised or when no state was stored
  for the watcher (first run), and all returned events otherwise; and for every watcher
  whose \<open>check_updates\<close> returned, the returned state is what the store holds under the
  watcher's key afterwards, first run or not, events or not.
\<close>

theorem C8_first_run_suppression:
  assumes "distinct (map get_state_key watchers)"
  shows "fst (check_all watchers state_manager) =
           concat (map (\<lambda>w. case watcher_check_updates w (state_manager (get_state_key w)) of
                               Inl e \<Rightarrow> []
                             | Inr (events, new_state) \<Rightarrow>
                                 (case state_manager (get_state_key w) of
                                    None \<Rightarrow> [] | Some s \<Rightarrow> events)) watchers)
       \<and> (\<forall>w \<in> set watchers. \<forall>events new_state.
             watcher_check_updates w (state_manager (get_state_key w)) = Inr (events, new_state)
             \<longrightarrow> snd (check_all watchers state_manager) (get_state_key w) = Some new_state)"
  using check_all_loop_events [OF assms, of state_manager "[]"] check_all_loop_saved [OF assms]
  by (simp add: check_all_def contribution_def)

theorem C8_first_run_suppression_witness:
  "fst (check_all
      [\<lparr>source_name = ''github'', watcher_model_name = ''A'',
        watcher_check_updates =
          (\<lambda>s. Inr ([ex_event ''github'' ''new_commit'' ''A'' UNKNOWN], 1::nat))\<rparr>,
       \<lparr>source_name = ''arxiv'', watcher_model_name = ''B'',
        watcher_check_updates =
          (\<lambda>s. Inr ([ex_event ''arxiv'' ''new_paper'' ''B'' UNKNOWN], 2))\<rparr>]
      [''arxiv:B'' \<mapsto> 0])
     = [ex_event ''arxiv'' ''new_paper'' ''B'' UNKNOWN]
   \<and> snd (check_all
      [\<lparr>source_name = ''github'', watcher_model_name = ''A'',
        watcher_check_updates =
          (\<lambda>s. Inr ([ex_event ''github'' ''new_commit'' ''A'' UNKNOWN], 1::nat))\<rparr>,
       \<lparr>source_name = ''arxiv'', watcher_model_name = ''B'',
        watcher_check_updates =
          (\<lambda>s. Inr ([ex_event ''arxiv'' ''new_paper'' ''B'' UNKNOWN], 2))\<rparr>]
      [''arxiv:B'' \<mapsto> 0]) ''github:A'' = Some 1
   \<and> snd (check_all
      [\<lparr>source_name = ''github'', watcher_model_name = ''A'',
        watcher_check_updates =
          (\<lambda>s. Inr ([ex_event ''github'' ''new_commit'' ''A'' UNKNOWN], 1::nat))\<rparr>,
       \<lparr>source_name = ''arxiv'', watcher_model_name = ''B'',
        watcher_check_updates =
          (\<lambda>s. Inr ([ex_event ''arxiv'' ''new_paper'' ''B'' UNKNOWN], 2))\<rparr>]
      [''arxiv:B'' \<mapsto> 0]) ''arxiv:B'' = Some 2"
  using C8_first_run_suppression [where state_manager = "[''arxiv:B'' \<mapsto> (0::nat)]" and watchers =
      "[\<lparr>source_name = ''github'', watcher_model_name = ''A'',
        watcher_check_updates =
          (\<lambda>s. Inr ([ex_event ''github'' ''new_commit'' ''A'' UNKNOWN], 1::nat))\<rparr>,
       \<lparr>source_name = ''arxiv'', watcher_model_name = ''B'',
        watcher_check_updates =
          (\<lambda>s. Inr ([ex_event ''arxiv'' ''new_paper'' ''B'' UNKNOWN], 2))\<rparr>]"]
  by (simp add: get_state_key_def)

section \<open>A failing fetch, a failing watcher\<close>







end
